theory Spec2Isabelle
  imports Complex_Main
begin

section \<open>Data model (src/types/index.ts)\<close>

text \<open>
  The application is a medication-adherence tracker written in TypeScript. The records
  below follow \<^verbatim>\<open>Medication\<close> and \<^verbatim>\<open>DoseLog\<close> of src/types/index.ts. The fields
  \<^verbatim>\<open>id\<close> and \<^verbatim>\<open>userId\<close> occur in both types and are prefixed here. The date
  fields are stored as ISO strings of a \<^verbatim>\<open>TIMESTAMP WITH TIME ZONE\<close> column; the
  model keeps the instant such a string denotes, in milliseconds since the epoch (the
  time value of \<^verbatim>\<open>new Date(str)\<close>). An absent \<^verbatim>\<open>endDate\<close> is \<open>None\<close>.
  \<^verbatim>\<open>is_on_time\<close> is used only through its truthiness and is a \<open>bool\<close>.
\<close>

datatype FrequencyType = once_daily | twice_daily | three_times_daily | four_times_daily | custom

record Medication =
  med_id :: string
  name :: string
  dose :: string
  frequency :: FrequencyType
  times :: "string list"
  startDate :: int
  endDate :: "int option"
  med_userId :: string

record DoseLog =
  log_id :: string
  medicationId :: string
  timestamp :: int
  isOnTime :: bool
  log_userId :: string

section \<open>Dates of the host (ECMAScript Date, date-fns)\<close>

text \<open>
  The time value of a JavaScript \<^verbatim>\<open>Date\<close> is a number of milliseconds since the
  epoch, or NaN for an Invalid Date; \<open>None\<close> is NaN. The host fixes the local time
  zone and the reading of strings by \<^verbatim>\<open>Number\<close>. \<open>tzOffset\<close> is the offset of the
  zone from UTC; the Calendar's comparison of days below takes it as constant, the
  Dashboard's projection of due times also takes the changes of the offset (daylight
  saving time), which are given further down. \<open>NumberOther\<close> stands for
  what \<^verbatim>\<open>Number\<close> gives on a string that is neither empty nor a sequence of decimal
  digits (signs, fractions, exponents, radix prefixes, white space), already cut to an
  integer as \<^verbatim>\<open>setHours\<close> does, with \<open>None\<close> for NaN and the infinities; it
  is a parameter of the development.
\<close>

type_synonym time_value = "int option"

record host =
  tzOffset :: int
  NumberOther :: "string \<Rightarrow> int option"

definition msPerMinute :: int where "msPerMinute = 60000"
definition msPerHour :: int where "msPerHour = 3600000"
definition msPerDay :: int where "msPerDay = 86400000"

definition LocalTime :: "host \<Rightarrow> int \<Rightarrow> int" where
  "LocalTime h t = t + tzOffset h"

definition UTC :: "host \<Rightarrow> int \<Rightarrow> int" where
  "UTC h t = t - tzOffset h"

definition Day :: "int \<Rightarrow> int" where
  "Day t = t div msPerDay"

definition TimeWithinDay :: "int \<Rightarrow> int" where
  "TimeWithinDay t = t mod msPerDay"

definition TimeClip :: "int \<Rightarrow> time_value" where
  "TimeClip t = (if \<bar>t\<bar> > 8640000000000000 then None else Some t)"

text \<open>date-fns \<^verbatim>\<open>isBefore\<close>, \<^verbatim>\<open>isAfter\<close>: a comparison of the two time values, false
  when either is NaN.\<close>

definition isBefore :: "time_value \<Rightarrow> time_value \<Rightarrow> bool" where
  "isBefore d c = (case d of None \<Rightarrow> False
                   | Some a \<Rightarrow> (case c of None \<Rightarrow> False | Some b \<Rightarrow> a < b))"

definition isAfter :: "time_value \<Rightarrow> time_value \<Rightarrow> bool" where
  "isAfter d c = (case d of None \<Rightarrow> False
                  | Some a \<Rightarrow> (case c of None \<Rightarrow> False | Some b \<Rightarrow> a > b))"

text \<open>date-fns \<^verbatim>\<open>isSameDay\<close>: both dates have the same local start of day.\<close>

definition startOfDay :: "host \<Rightarrow> int \<Rightarrow> int" where
  "startOfDay h t = UTC h (Day (LocalTime h t) * msPerDay)"

definition isSameDay :: "host \<Rightarrow> int \<Rightarrow> int \<Rightarrow> bool" where
  "isSameDay h a b = (startOfDay h a = startOfDay h b)"

section \<open>Dashboard: the filter of the upcoming doses (Dashboard.fetchData)\<close>

text \<open>
  \<^verbatim>\<open>
  .filter(med => {
    const startDate = new Date(med.startDate);
    const endDate = med.endDate ? new Date(med.endDate) : null;
    return (!endDate || isAfter(endDate, now)) && !isBefore(now, startDate);
  })
  \<close>
\<close>

definition upcomingFilter :: "int \<Rightarrow> Medication \<Rightarrow> bool" where
  "upcomingFilter now med =
     ((case endDate med of None \<Rightarrow> True | Some e \<Rightarrow> isAfter (Some e) (Some now))
      \<and> \<not> isBefore (Some now) (Some (startDate med)))"

section \<open>Calendar: the medications of the selected date (getScheduledMedications)\<close>

text \<open>
  \<^verbatim>\<open>
  medications.filter(med => {
    const startDate = new Date(med.startDate);
    const endDate = med.endDate ? new Date(med.endDate) : null;
    return (startDate <= date && (!endDate || endDate >= date));
  })
  \<close>
\<close>

definition isScheduled :: "int \<Rightarrow> Medication \<Rightarrow> bool" where
  "isScheduled date med =
     (startDate med \<le> date \<and> (case endDate med of None \<Rightarrow> True | Some e \<Rightarrow> e \<ge> date))"

definition getScheduledMedications :: "int \<Rightarrow> Medication list \<Rightarrow> Medication list" where
  "getScheduledMedications date medications = filter (isScheduled date) medications"

section \<open>Host library: strings, numbers, arrays and objects\<close>

text \<open>
  \<^verbatim>\<open>String.prototype.split(':')\<close>: the pieces between the separators; a string
  without separator is one piece, the empty string gives one empty piece.
\<close>

fun split_on :: "char \<Rightarrow> string \<Rightarrow> string list" where
  "split_on c [] = [[]]"
| "split_on c (x # xs) =
     (if x = c then [] # split_on c xs
      else (case split_on c xs of [] \<Rightarrow> [[x]] | r # rs \<Rightarrow> (x # r) # rs))"

definition isDigit :: "char \<Rightarrow> bool" where
  "isDigit c = (48 \<le> (of_char c :: nat) \<and> (of_char c :: nat) \<le> 57)"

definition digitVal :: "char \<Rightarrow> int" where
  "digitVal c = int (of_char c) - 48"

definition decimal :: "string \<Rightarrow> int" where
  "decimal s = foldl (\<lambda>n c. 10 * n + digitVal c) 0 s"

text \<open>
  \<^verbatim>\<open>Number(s)\<close> on a string, as far as \<^verbatim>\<open>setHours\<close> reads it: the empty string is
  0, a sequence of decimal digits is its value, every other string is left to the host.
  Numbers are exact integers here; the doubles of the source are exact below \<open>2^53\<close>,
  and every time value that \<open>TimeClip\<close> accepts is below that.
\<close>

definition Number_js :: "host \<Rightarrow> string \<Rightarrow> int option" where
  "Number_js h s =
     (if s = [] then Some 0
      else if list_all isDigit s then Some (decimal s)
      else NumberOther h s)"

text \<open>
  \<^verbatim>\<open>Array.prototype.sort(comparefn)\<close> for a consistent comparator, one that never
  returns NaN on the elements. The sort is stable: the model inserts the elements from
  the right, each before the first element it does not compare greater than. (For a
  comparator that returns NaN the language leaves the order to the implementation; where
  that can happen, in the sort of the upcoming doses, the model asks the engine instead.)
\<close>

definition SortCompare :: "('a \<Rightarrow> 'a \<Rightarrow> int option) \<Rightarrow> 'a \<Rightarrow> 'a \<Rightarrow> int" where
  "SortCompare comparefn x y = (case comparefn x y of None \<Rightarrow> 0 | Some v \<Rightarrow> v)"

fun insort_cmp :: "('a \<Rightarrow> 'a \<Rightarrow> int option) \<Rightarrow> 'a \<Rightarrow> 'a list \<Rightarrow> 'a list" where
  "insort_cmp comparefn x [] = [x]"
| "insort_cmp comparefn x (y # ys) =
     (if SortCompare comparefn x y \<le> 0 then x # y # ys
      else y # insort_cmp comparefn x ys)"

definition Array_sort :: "('a \<Rightarrow> 'a \<Rightarrow> int option) \<Rightarrow> 'a list \<Rightarrow> 'a list" where
  "Array_sort comparefn xs = foldr (insort_cmp comparefn) xs []"

text \<open>
  An object used as a dictionary (\<^verbatim>\<open>Record<string, number>\<close>) is the list of its
  own properties in creation order. Assigning to an existing key replaces the value and
  keeps the key's place; assigning a number to the key \<^verbatim>\<open>__proto__\<close> goes to the
  inherited setter, which ignores it. \<^verbatim>\<open>Object.entries\<close> lists the keys that are
  array indices (the canonical decimal strings of the integers from 0 to \<open>2^32 - 2\<close>)
  first, in ascending numeric order, then the other keys in creation order.
\<close>

fun own_set :: "(string \<times> 'v) list \<Rightarrow> string \<Rightarrow> 'v \<Rightarrow> (string \<times> 'v) list" where
  "own_set [] k v = [(k, v)]"
| "own_set ((k', v') # kvs) k v =
     (if k' = k then (k', v) # kvs else (k', v') # own_set kvs k v)"

definition obj_set :: "(string \<times> 'v) list \<Rightarrow> string \<Rightarrow> 'v \<Rightarrow> (string \<times> 'v) list" where
  "obj_set obj k v = (if k = ''__proto__'' then obj else own_set obj k v)"

definition isArrayIndex :: "string \<Rightarrow> bool" where
  "isArrayIndex s =
     (case s of [] \<Rightarrow> False
      | c # cs \<Rightarrow> list_all isDigit s \<and> (if c = CHR ''0'' then cs = [] else True)
                 \<and> decimal s \<le> 4294967294)"

definition Object_entries :: "(string \<times> 'v) list \<Rightarrow> (string \<times> 'v) list" where
  "Object_entries obj =
     sort_key (\<lambda>kv. decimal (fst kv)) (filter (\<lambda>kv. isArrayIndex (fst kv)) obj)
     @ filter (\<lambda>kv. \<not> isArrayIndex (fst kv)) obj"

section \<open>Local time with changes of the offset\<close>

text \<open>
  The changes of the zone's offset (daylight saving time, changes of the rules), in
  ascending order of their instants: each pair is the UTC instant of a change and the
  offset in force from then on; \<open>tzOffset\<close> is the offset before the first change.
  \<^verbatim>\<open>LocalTime(t)\<close> of the language adds the offset in force at \<open>t\<close>.
  \<^verbatim>\<open>UTC(t)\<close> of the language reads a local time back: it is the earliest instant
  with that local reading; a reading that a change of the offset skips is taken under the
  offset in force before that change.
\<close>

type_synonym offset_changes = "(int \<times> int) list"

fun offsetFrom :: "int \<Rightarrow> offset_changes \<Rightarrow> int \<Rightarrow> int" where
  "offsetFrom off [] t = off"
| "offsetFrom off ((c, off') # cs) t = (if t < c then off else offsetFrom off' cs t)"

definition zoneOffsets :: "host \<Rightarrow> offset_changes \<Rightarrow> int list" where
  "zoneOffsets h cs = tzOffset h # map snd cs"

definition zoneLocalTime :: "host \<Rightarrow> offset_changes \<Rightarrow> int \<Rightarrow> int" where
  "zoneLocalTime h cs t = t + offsetFrom (tzOffset h) cs t"

definition possibleInstants :: "host \<Rightarrow> offset_changes \<Rightarrow> int \<Rightarrow> int list" where
  "possibleInstants h cs loc =
     filter (\<lambda>t. zoneLocalTime h cs t = loc) (map (\<lambda>off. loc - off) (zoneOffsets h cs))"

fun offsetBeforeGap :: "int \<Rightarrow> offset_changes \<Rightarrow> int \<Rightarrow> int" where
  "offsetBeforeGap off [] loc = off"
| "offsetBeforeGap off ((c, off') # cs) loc =
     (if c + off \<le> loc \<and> loc < c + off' then off else offsetBeforeGap off' cs loc)"

definition zoneUTC :: "host \<Rightarrow> offset_changes \<Rightarrow> int \<Rightarrow> int" where
  "zoneUTC h cs loc =
     (case possibleInstants h cs loc of
        [] \<Rightarrow> loc - offsetBeforeGap (tzOffset h) cs loc
      | t # ts \<Rightarrow> fold min ts t)"

text \<open>
  \<^verbatim>\<open>Date.prototype.setHours(hours, minutes, 0, 0)\<close> on a valid date \<open>t\<close>: the local
  day of \<open>t\<close> with the time within the day replaced, read back by \<^verbatim>\<open>UTC\<close>; NaN when
  an argument is NaN (\<^verbatim>\<open>undefined\<close> reads as NaN) or the result is out of the range
  of dates. \<^verbatim>\<open>d.setDate(d.getDate() + 1)\<close> on a valid date: the next local day with
  the local time within the day of \<open>d\<close>, read back by \<^verbatim>\<open>UTC\<close>.
\<close>

definition MakeTime :: "int \<Rightarrow> int \<Rightarrow> int" where
  "MakeTime hour minute = hour * msPerHour + minute * msPerMinute"

definition MakeDate :: "int \<Rightarrow> int \<Rightarrow> int" where
  "MakeDate day time = day * msPerDay + time"

definition setHours ::
    "host \<Rightarrow> offset_changes \<Rightarrow> int \<Rightarrow> int option \<Rightarrow> int option \<Rightarrow> time_value" where
  "setHours h cs t hours minutes =
     (case hours of None \<Rightarrow> None
      | Some hr \<Rightarrow>
          (case minutes of None \<Rightarrow> None
           | Some mn \<Rightarrow>
               TimeClip (zoneUTC h cs (MakeDate (Day (zoneLocalTime h cs t)) (MakeTime hr mn)))))"

definition setDate_next :: "host \<Rightarrow> offset_changes \<Rightarrow> int \<Rightarrow> time_value" where
  "setDate_next h cs t =
     TimeClip (zoneUTC h cs (MakeDate (Day (zoneLocalTime h cs t) + 1)
                                      (TimeWithinDay (zoneLocalTime h cs t))))"

section \<open>Dashboard: the upcoming doses (Dashboard.fetchData)\<close>

text \<open>
  \<^verbatim>\<open>
  .flatMap(med => (med.times || []).map(timeStr => {
      const [hours, minutes] = timeStr.split(':').map(Number);
      const dueTime = new Date();
      dueTime.setHours(hours, minutes, 0, 0);
      if (isBefore(dueTime, now)) { dueTime.setDate(dueTime.getDate() + 1); }
      return { medication: med, dueTime };
  }))
  .sort((a, b) => a.dueTime.getTime() - b.dueTime.getTime())
  .slice(0, 3)
  \<close>
  The source reads the clock once for \<open>now\<close> and again for each \<open>dueTime\<close>; only the
  local day of the later readings is used (\<^verbatim>\<open>setHours\<close> replaces the rest), and the
  model takes it to be the local day of \<open>now\<close>.
\<close>

record UpcomingDose =
  medication :: Medication
  dueTime :: time_value

definition parseTime :: "host \<Rightarrow> string \<Rightarrow> int option \<times> int option" where
  "parseTime h timeStr =
     (case map (Number_js h) (split_on CHR '':'' timeStr) of
        [] \<Rightarrow> (None, None)
      | [hours] \<Rightarrow> (hours, None)
      | hours # minutes # _ \<Rightarrow> (hours, minutes))"

definition projectDose ::
    "host \<Rightarrow> offset_changes \<Rightarrow> int \<Rightarrow> Medication \<Rightarrow> string \<Rightarrow> UpcomingDose" where
  "projectDose h cs now med timeStr =
     (case parseTime h timeStr of
        (hours, minutes) \<Rightarrow>
          (let dueTime0 = setHours h cs now hours minutes
           in \<lparr>medication = med,
               dueTime = (case dueTime0 of None \<Rightarrow> None
                          | Some d \<Rightarrow> if isBefore (Some d) (Some now) then setDate_next h cs d
                                     else Some d)\<rparr>))"

definition upcomingProjection ::
    "host \<Rightarrow> offset_changes \<Rightarrow> int \<Rightarrow> Medication list \<Rightarrow> UpcomingDose list" where
  "upcomingProjection h cs now formattedMeds =
     concat (map (\<lambda>med. map (projectDose h cs now med) (times med))
                 (filter (upcomingFilter now) formattedMeds))"

definition byDueTime :: "UpcomingDose \<Rightarrow> UpcomingDose \<Rightarrow> int option" where
  "byDueTime a b =
     (case dueTime a of None \<Rightarrow> None
      | Some x \<Rightarrow> (case dueTime b of None \<Rightarrow> None | Some y \<Rightarrow> Some (x - y)))"

text \<open>
  The comparator returns NaN as soon as one entry holds an Invalid Date (already when it
  is compared with itself), and a number otherwise. In the first case the order of the
  sorted array is the engine's choice, \<open>engineOrder\<close>, a parameter; in the second it is
  the stable sort.
\<close>

definition upcomingSorted ::
    "host \<Rightarrow> offset_changes \<Rightarrow> (UpcomingDose list \<Rightarrow> UpcomingDose list) \<Rightarrow> int
      \<Rightarrow> Medication list \<Rightarrow> UpcomingDose list" where
  "upcomingSorted h cs engineOrder now formattedMeds =
     (if list_all (\<lambda>e. dueTime e \<noteq> None) (upcomingProjection h cs now formattedMeds)
      then Array_sort byDueTime (upcomingProjection h cs now formattedMeds)
      else engineOrder (upcomingProjection h cs now formattedMeds))"

definition upcomingDoses ::
    "host \<Rightarrow> offset_changes \<Rightarrow> (UpcomingDose list \<Rightarrow> UpcomingDose list) \<Rightarrow> int
      \<Rightarrow> Medication list \<Rightarrow> UpcomingDose list" where
  "upcomingDoses h cs engineOrder now formattedMeds =
     take 3 (upcomingSorted h cs engineOrder now formattedMeds)"

text \<open>
  The render of the upcoming doses:
  \<^verbatim>\<open>
  upcomingDoses.map((item, index) => ( ... {item.medication.name} ... {item.medication.dose}
      ... {format(item.dueTime, 'h:mm a')} ... {format(item.dueTime, 'MMM d')} ... ))
  \<close>
  date-fns \<^verbatim>\<open>format\<close> throws a \<^verbatim>\<open>RangeError\<close> on an Invalid Date. The model keeps,
  for each row, the name, the dose and the instant that the two texts are made from.
\<close>

datatype js_error = RangeError

definition format_js :: "time_value \<Rightarrow> js_error + int" where
  "format_js d = (case d of None \<Rightarrow> Inl RangeError | Some t \<Rightarrow> Inr t)"

fun renderUpcomingDoses :: "UpcomingDose list \<Rightarrow> js_error + (string \<times> string \<times> int) list" where
  "renderUpcomingDoses [] = Inr []"
| "renderUpcomingDoses (item # items) =
     (case format_js (dueTime item) of
        Inl err \<Rightarrow> Inl err
      | Inr t \<Rightarrow>
          (case renderUpcomingDoses items of
             Inl err \<Rightarrow> Inl err
           | Inr rows \<Rightarrow> Inr ((name (medication item), dose (medication item), t) # rows)))"

text \<open>The time value of a due time that is a valid date (0 stands in for NaN).\<close>

definition dueMs :: "UpcomingDose \<Rightarrow> int" where
  "dueMs e = (case dueTime e of None \<Rightarrow> 0 | Some t \<Rightarrow> t)"

text \<open>
  A well-formed time of day is \<^verbatim>\<open>HH:MM\<close> on the 24-hour clock: two digits, a colon,
  two digits, the hour below 24 and the minute below 60; \<open>timeOfDay\<close> is its time
  within the day, with zero seconds and milliseconds. \<open>localReading\<close> is what the
  local calendar and clock show at an instant: the number of the local day and the time
  within that day.
\<close>

definition hourOf :: "string \<Rightarrow> int" where
  "hourOf s = (case s of a # b # _ \<Rightarrow> 10 * digitVal a + digitVal b | _ \<Rightarrow> 0)"

definition minuteOf :: "string \<Rightarrow> int" where
  "minuteOf s = (case s of _ # _ # _ # d # e # _ \<Rightarrow> 10 * digitVal d + digitVal e | _ \<Rightarrow> 0)"

definition wellFormedTime :: "string \<Rightarrow> bool" where
  "wellFormedTime s =
     (case s of
        [a, b, c, d, e] \<Rightarrow>
          isDigit a \<and> isDigit b \<and> c = CHR '':'' \<and> isDigit d \<and> isDigit e
          \<and> hourOf s < 24 \<and> minuteOf s < 60
      | _ \<Rightarrow> False)"



section \<open>Dashboard: adherence statistics (Dashboard.fetchData and its render)\<close>

text \<open>
  \<^verbatim>\<open>
  const totalDoses = formattedLogs.length;
  const takenOnTime = formattedLogs.filter(log => log.isOnTime).length;
  const adherenceRate = totalDoses > 0 ? (takenOnTime / totalDoses) * 100 : 0;
  ... {Math.round(adherenceStats.adherenceRate)}%
  \<close>
  The quotient is a rational here. \<^verbatim>\<open>Math.round\<close> rounds to the nearest integer,
  a half upwards. (The double of the source can fall just below an exact half, where both
  neighbours are nearest; the statements below do not depend on which one is shown.)
\<close>

definition adherenceRate :: "DoseLog list \<Rightarrow> rat" where
  "adherenceRate formattedLogs =
     (let totalDoses = length formattedLogs;
          takenOnTime = length (filter isOnTime formattedLogs)
      in if totalDoses > 0 then (of_nat takenOnTime / of_nat totalDoses) * 100 else 0)"

definition Math_round :: "rat \<Rightarrow> int" where
  "Math_round x = \<lfloor>x + 1 / 2\<rfloor>"

definition displayedAdherence :: "DoseLog list \<Rightarrow> int" where
  "displayedAdherence formattedLogs = Math_round (adherenceRate formattedLogs)"

text \<open>
  \<^verbatim>\<open>
  const missedByMed: Record<string, number> = {};
  formattedMeds.forEach(med => {
    const medLogs = formattedLogs.filter(log => log.medicationId === med.id);
    const missedCount = medLogs.filter(log => !log.isOnTime).length;
    if (missedCount > 0) { missedByMed[med.name] = missedCount; }
  });
  const sortedMostMissed = Object.entries(missedByMed)
    .map(([medication, count]) => ({ medication, count }))
    .sort((a, b) => b.count - a.count)
    .slice(0, 3);
  \<close>
\<close>

record MostMissed =
  missed_medication :: string
  missed_count :: nat

definition missedCount :: "DoseLog list \<Rightarrow> Medication \<Rightarrow> nat" where
  "missedCount formattedLogs med =
     (let medLogs = filter (\<lambda>log. medicationId log = med_id med) formattedLogs
      in length (filter (\<lambda>log. \<not> isOnTime log) medLogs))"

definition recordMissed :: "DoseLog list \<Rightarrow> (string \<times> nat) list \<Rightarrow> Medication \<Rightarrow> (string \<times> nat) list" where
  "recordMissed formattedLogs obj med =
     (if missedCount formattedLogs med > 0
      then obj_set obj (name med) (missedCount formattedLogs med)
      else obj)"

definition missedByMed :: "Medication list \<Rightarrow> DoseLog list \<Rightarrow> (string \<times> nat) list" where
  "missedByMed formattedMeds formattedLogs = foldl (recordMissed formattedLogs) [] formattedMeds"

definition byCountDesc :: "MostMissed \<Rightarrow> MostMissed \<Rightarrow> int option" where
  "byCountDesc a b = Some (int (missed_count b) - int (missed_count a))"

definition sortedMostMissed :: "Medication list \<Rightarrow> DoseLog list \<Rightarrow> MostMissed list" where
  "sortedMostMissed formattedMeds formattedLogs =
     take 3 (Array_sort byCountDesc
       (map (\<lambda>kv. \<lparr>missed_medication = fst kv, missed_count = snd kv\<rparr>)
            (Object_entries (missedByMed formattedMeds formattedLogs))))"

section \<open>What a handler does\<close>

text \<open>
  The handlers are asynchronous functions that show notices (\<^verbatim>\<open>toast\<close>) and ask the
  store to insert a row. The model gives what a handler does up to its request to the
  store: nothing, a notice and an early return, or the insertion of a row.
\<close>

datatype toast = toast_info string | toast_success string | toast_error string

datatype 'row outcome = Nothing | Notice toast | Insert 'row

record dose_log_row =
  medication_id :: string
  row_timestamp :: int
  is_on_time :: bool
  user_id :: string

section \<open>Calendar page (src/pages/Calendar.tsx)\<close>

record CalendarState =
  cal_user :: "string option"
  cal_date :: int
  cal_medications :: "Medication list"
  cal_logs :: "DoseLog list"

definition getLogsForDate :: "host \<Rightarrow> CalendarState \<Rightarrow> DoseLog list" where
  "getLogsForDate h st = filter (\<lambda>log. isSameDay h (timestamp log) (cal_date st)) (cal_logs st)"

definition isMedicationTaken :: "host \<Rightarrow> CalendarState \<Rightarrow> string \<Rightarrow> bool" where
  "isMedicationTaken h st medId = list_ex (\<lambda>log. medicationId log = medId) (getLogsForDate h st)"

text \<open>
  \<^verbatim>\<open>
  const handleLogDose = async (medicationId: string) => {
    if (!user) return;
    // Check if already logged for today
    if (isMedicationTaken(medicationId)) {
      toast.info("You've already logged this medication today");
      return;
    }
    ... supabase.from('dose_logs').insert([{ medication_id: medicationId,
          timestamp: new Date().toISOString(), is_on_time: true, user_id: user.id }])
  \<close>
  When the store returns the inserted row, the page appends it to its logs:
  \<^verbatim>\<open>setLogs([...logs, newLog])\<close>.
\<close>

definition Calendar_handleLogDose ::
    "host \<Rightarrow> CalendarState \<Rightarrow> string \<Rightarrow> int \<Rightarrow> dose_log_row outcome" where
  "Calendar_handleLogDose h st medId clock =
     (case cal_user st of
        None \<Rightarrow> Nothing
      | Some uid \<Rightarrow>
          if isMedicationTaken h st medId
          then Notice (toast_info ''You've already logged this medication today'')
          else Insert \<lparr>medication_id = medId, row_timestamp = clock, is_on_time = True,
                       user_id = uid\<rparr>)"

definition Calendar_logInserted :: "CalendarState \<Rightarrow> DoseLog \<Rightarrow> CalendarState" where
  "Calendar_logInserted st newLog = st\<lparr>cal_logs := cal_logs st @ [newLog]\<rparr>"

section \<open>Dose Logging page (DoseLogging.handleLogDose)\<close>

text \<open>
  \<^verbatim>\<open>
  const handleLogDose = async () => {
    if (!selectedMedicationId || !user) {
      toast.error("Please select a medication");
      return;
    }
    ... const now = new Date();
    supabase.from('dose_logs').insert([{ medication_id: selectedMedicationId,
          timestamp: now.toISOString(), is_on_time: true, user_id: user.id }])
  \<close>
\<close>

record DoseLoggingState =
  dl_user :: "string option"
  selectedMedicationId :: string
  dl_medications :: "Medication list"
  recentLogs :: "DoseLog list"

definition DoseLogging_handleLogDose :: "DoseLoggingState \<Rightarrow> int \<Rightarrow> dose_log_row outcome" where
  "DoseLogging_handleLogDose st clock =
     (case dl_user st of
        None \<Rightarrow> Notice (toast_error ''Please select a medication'')
      | Some uid \<Rightarrow>
          if selectedMedicationId st = []
          then Notice (toast_error ''Please select a medication'')
          else Insert \<lparr>medication_id = selectedMedicationId st, row_timestamp = clock,
                       is_on_time = True, user_id = uid\<rparr>)"

section \<open>Add Medication page (src/pages/AddMedication.tsx, onSubmit)\<close>

text \<open>
  \<^verbatim>\<open>
  const onSubmit = async (data: FormValues) => {
    if (!user) { toast.error("You must be logged in to add a medication"); return; }
    if (times.length === 0) {
      toast.error("Please add at least one time for your medication"); return; }
    const medication = { name: data.name, dose: data.dose, frequency: data.frequency,
      times: times, start_date: ..., end_date: ..., category: data.category,
      family_member: data.familyMember, user_id: user.id, created_at: ... };
    ... supabase.from('medications').insert([medication])
  \<close>
\<close>

record FormValues =
  form_name :: string
  form_dose :: string
  form_frequency :: FrequencyType
  form_startDate :: int
  form_endDate :: "int option"
  form_category :: "string option"
  form_familyMember :: "string option"

record medication_row =
  row_name :: string
  row_dose :: string
  row_frequency :: FrequencyType
  row_times :: "string list"
  start_date :: int
  end_date :: "int option"
  category :: "string option"
  family_member :: "string option"
  row_user_id :: string
  created_at :: int

record AddMedicationState =
  add_user :: "string option"
  add_times :: "string list"

definition onSubmit :: "AddMedicationState \<Rightarrow> FormValues \<Rightarrow> int \<Rightarrow> medication_row outcome" where
  "onSubmit st data clock =
     (case add_user st of
        None \<Rightarrow> Notice (toast_error ''You must be logged in to add a medication'')
      | Some uid \<Rightarrow>
          if length (add_times st) = 0
          then Notice (toast_error ''Please add at least one time for your medication'')
          else Insert \<lparr>row_name = form_name data, row_dose = form_dose data,
                       row_frequency = form_frequency data, row_times = add_times st,
                       start_date = form_startDate data, end_date = form_endDate data,
                       category = form_category data, family_member = form_familyMember data,
                       row_user_id = uid, created_at = clock\<rparr>)"

section \<open>The validity window\<close>

lemma upcomingFilter_iff:
  "upcomingFilter now med \<longleftrightarrow>
     startDate med \<le> now \<and> (case endDate med of None \<Rightarrow> True | Some e \<Rightarrow> now < e)"
  by (auto simp: upcomingFilter_def isAfter_def isBefore_def split: option.splits)

lemma upcomingFilter_end_before_now:
  "endDate med = Some e \<Longrightarrow> e < now \<Longrightarrow> \<not> upcomingFilter now med"
  by (simp add: upcomingFilter_iff)

lemma isScheduled_end_before_date:
  "endDate med = Some e \<Longrightarrow> e < date \<Longrightarrow> \<not> isScheduled date med"
  by (simp add: isScheduled_def)

lemma upcomingFilter_isScheduled:
  "upcomingFilter t med \<Longrightarrow> isScheduled t med"
  by (auto simp: upcomingFilter_iff isScheduled_def split: option.splits)

lemma isScheduled_upcomingFilter:
  "isScheduled t med \<Longrightarrow> endDate med \<noteq> Some t \<Longrightarrow> upcomingFilter t med"
  by (auto simp: upcomingFilter_iff isScheduled_def split: option.splits)

text \<open>
  Claim C1. The upcoming-dose filter of the Dashboard is meant to keep a medication
  exactly when \<open>now\<close> is not before its start date and its end date, if any, is not
  before \<open>now\<close>; a medication whose end date equals \<open>now\<close> is still eligible. The code
  tests the end date with the strict \<^verbatim>\<open>isAfter(endDate, now)\<close>: at the medication
  below, started earlier and ending exactly at \<open>now\<close>, the start date is not after
  \<open>now\<close> and the end date is not before \<open>now\<close>, yet the filter drops it.
\<close>

theorem upcomingFilter_end_equals_now:
  "startDate \<lparr>med_id = ''m1'', name = ''Aspirin'', dose = ''10mg'', frequency = once_daily,
       times = [''08:00''], startDate = 1704067200000, endDate = Some 1709280000000,
       med_userId = ''u1''\<rparr> \<le> 1709280000000
   \<and> endDate \<lparr>med_id = ''m1'', name = ''Aspirin'', dose = ''10mg'', frequency = once_daily,
       times = [''08:00''], startDate = 1704067200000, endDate = Some 1709280000000,
       med_userId = ''u1''\<rparr> = Some 1709280000000
   \<and> \<not> upcomingFilter 1709280000000
       \<lparr>med_id = ''m1'', name = ''Aspirin'', dose = ''10mg'', frequency = once_daily,
        times = [''08:00''], startDate = 1704067200000, endDate = Some 1709280000000,
        med_userId = ''u1''\<rparr>"
  by (simp add: upcomingFilter_def isAfter_def isBefore_def)

text \<open>
  Claim C5. The Calendar's \<^verbatim>\<open>getScheduledMedications\<close> and the Dashboard's filter are
  meant to accept the same medications at every instant. They differ where the end date
  equals the instant: the Calendar tests \<^verbatim>\<open>endDate >= date\<close> and keeps the medication,
  the Dashboard tests \<^verbatim>\<open>isAfter(endDate, now)\<close> and drops it.
\<close>

theorem scheduled_but_not_upcoming:
  "getScheduledMedications 1709280000000
     [\<lparr>med_id = ''m1'', name = ''Aspirin'', dose = ''10mg'', frequency = once_daily,
       times = [''08:00''], startDate = 1704067200000, endDate = Some 1709280000000,
       med_userId = ''u1''\<rparr>]
   = [\<lparr>med_id = ''m1'', name = ''Aspirin'', dose = ''10mg'', frequency = once_daily,
       times = [''08:00''], startDate = 1704067200000, endDate = Some 1709280000000,
       med_userId = ''u1''\<rparr>]
   \<and> filter (upcomingFilter 1709280000000)
     [\<lparr>med_id = ''m1'', name = ''Aspirin'', dose = ''10mg'', frequency = once_daily,
       times = [''08:00''], startDate = 1704067200000, endDate = Some 1709280000000,
       med_userId = ''u1''\<rparr>]
   = []"
  by (simp add: getScheduledMedications_def isScheduled_def upcomingFilter_def
      isAfter_def isBefore_def)

section \<open>Overall adherence\<close>

lemma Math_round_near: "\<bar>of_int (Math_round x) - x\<bar> \<le> 1 / 2"
  unfolding Math_round_def by linarith

lemma Math_round_mono: "x \<le> y \<Longrightarrow> Math_round x \<le> Math_round y"
  unfolding Math_round_def by (simp add: floor_mono)

lemma Math_round_of_int: "Math_round (of_int n) = n"
  unfolding Math_round_def by linarith

lemma adherenceRate_bounds: "0 \<le> adherenceRate logs \<and> adherenceRate logs \<le> 100"
proof -
  have "length (filter isOnTime logs) \<le> length logs" by simp
  then have "(of_nat (length (filter isOnTime logs)) :: rat) \<le> of_nat (length logs)"
    by (simp only: of_nat_le_iff)
  then show ?thesis
    by (auto simp: adherenceRate_def Let_def divide_le_eq)
qed

text \<open>
  Claim C2. The adherence percentage shown on the Dashboard is 0 for an empty collection
  of logs; otherwise it is an integer nearest to 100 times the number of on-time logs
  over the number of logs (at most one half away from it). It always lies between 0 and
  100, is 100 when the collection is not empty and every log is on time, and 0 when no
  log is on time.
\<close>

theorem overall_adherence:
  "displayedAdherence [] = 0
   \<and> (logs \<noteq> [] \<longrightarrow>
        \<bar>of_int (displayedAdherence logs)
           - 100 * of_nat (length (filter isOnTime logs)) / (of_nat (length logs) :: rat)\<bar> \<le> 1 / 2)
   \<and> 0 \<le> displayedAdherence logs \<and> displayedAdherence logs \<le> 100
   \<and> (logs \<noteq> [] \<longrightarrow> (\<forall>l \<in> set logs. isOnTime l) \<longrightarrow> displayedAdherence logs = 100)
   \<and> ((\<forall>l \<in> set logs. \<not> isOnTime l) \<longrightarrow> displayedAdherence logs = 0)"
proof -
  have e: "displayedAdherence [] = 0"
    by (simp add: displayedAdherence_def adherenceRate_def Math_round_def floor_eq_iff)
  have n: "\<bar>of_int (displayedAdherence logs)
           - 100 * of_nat (length (filter isOnTime logs)) / (of_nat (length logs) :: rat)\<bar> \<le> 1 / 2"
    if "logs \<noteq> []"
  proof -
    have "adherenceRate logs = 100 * of_nat (length (filter isOnTime logs)) / of_nat (length logs)"
      using that by (simp add: adherenceRate_def Let_def)
    then show ?thesis
      using Math_round_near [of "adherenceRate logs"] by (simp add: displayedAdherence_def)
  qed
  have lo: "0 \<le> displayedAdherence logs"
    using Math_round_mono [of 0 "adherenceRate logs"] Math_round_of_int [of 0] adherenceRate_bounds [of logs]
    by (simp add: displayedAdherence_def)
  have hi: "displayedAdherence logs \<le> 100"
    using Math_round_mono [of "adherenceRate logs" 100] Math_round_of_int [of 100] adherenceRate_bounds [of logs]
    by (simp add: displayedAdherence_def)
  have all: "displayedAdherence logs = 100" if "logs \<noteq> []" "\<forall>l \<in> set logs. isOnTime l"
  proof -
    have "filter isOnTime logs = logs" using that(2) by simp
    then have "adherenceRate logs = 100" using that(1) by (simp add: adherenceRate_def Let_def)
    then show ?thesis using Math_round_of_int [of 100] by (simp add: displayedAdherence_def)
  qed
  have none: "displayedAdherence logs = 0" if "\<forall>l \<in> set logs. \<not> isOnTime l"
  proof -
    have "filter isOnTime logs = []" using that by simp
    then have "adherenceRate logs = 0" by (simp add: adherenceRate_def Let_def)
    then show ?thesis using Math_round_of_int [of 0] by (simp add: displayedAdherence_def)
  qed
  from e n lo hi all none show ?thesis by blast
qed

theorem overall_adherence_witness:
  "displayedAdherence
     [\<lparr>log_id = ''l1'', medicationId = ''m1'', timestamp = 1709280300000, isOnTime = True, log_userId = ''u1''\<rparr>,
      \<lparr>log_id = ''l2'', medicationId = ''m1'', timestamp = 1709413200000, isOnTime = False, log_userId = ''u1''\<rparr>] = 50
   \<and> displayedAdherence
     [\<lparr>log_id = ''l1'', medicationId = ''m1'', timestamp = 1709280300000, isOnTime = True, log_userId = ''u1''\<rparr>] = 100
   \<and> displayedAdherence
     [\<lparr>log_id = ''l2'', medicationId = ''m1'', timestamp = 1709413200000, isOnTime = False, log_userId = ''u1''\<rparr>] = 0"
  using overall_adherence [of "[\<lparr>log_id = ''l1'', medicationId = ''m1'', timestamp = 1709280300000, isOnTime = True, log_userId = ''u1''\<rparr>,
      \<lparr>log_id = ''l2'', medicationId = ''m1'', timestamp = 1709413200000, isOnTime = False, log_userId = ''u1''\<rparr>]"]
    overall_adherence [of "[\<lparr>log_id = ''l1'', medicationId = ''m1'', timestamp = 1709280300000, isOnTime = True, log_userId = ''u1''\<rparr>]"]
    overall_adherence [of "[\<lparr>log_id = ''l2'', medicationId = ''m1'', timestamp = 1709413200000, isOnTime = False, log_userId = ''u1''\<rparr>]"]
  by (simp add: displayedAdherence_def adherenceRate_def Math_round_def floor_eq_iff)

section \<open>Sorting\<close>

lemma insort_cmp_key:
  assumes "\<forall>y \<in> set ys. comparefn x y = Some (f x - f y)"
  shows "insort_cmp comparefn x ys = insort_key f x ys"
  using assms by (induction ys) (simp_all add: SortCompare_def)

lemma Array_sort_key:
  assumes "\<forall>x \<in> set xs. \<forall>y \<in> set xs. comparefn x y = Some (f x - f y)"
  shows "Array_sort comparefn xs = sort_key f xs"
  using assms
proof (induction xs)
  case Nil
  then show ?case by (simp add: Array_sort_def)
next
  case (Cons x xs)
  then have ih: "Array_sort comparefn xs = sort_key f xs" by simp
  have "\<forall>y \<in> set (sort_key f xs). comparefn x y = Some (f x - f y)"
    using Cons.prems by simp
  then have "insort_cmp comparefn x (sort_key f xs) = insort_key f x (sort_key f xs)"
    by (rule insort_cmp_key)
  then show ?case
    using ih by (simp add: Array_sort_def)
qed

lemma length_Array_sort_insort: "length (insort_cmp comparefn x ys) = Suc (length ys)"
  by (induction ys) simp_all

lemma length_Array_sort: "length (Array_sort comparefn xs) = length xs"
  by (induction xs) (simp_all add: Array_sort_def length_Array_sort_insort)

section \<open>Most missed medications\<close>

lemma own_set_member: "(a, b) \<in> set (own_set obj k v) \<Longrightarrow> (a, b) \<in> set obj \<or> b = v"
  by (induction obj k v rule: own_set.induct) (auto split: if_splits)

lemma obj_set_member: "(a, b) \<in> set (obj_set obj k v) \<Longrightarrow> (a, b) \<in> set obj \<or> b = v"
  by (cases "k = ''__proto__''") (simp_all add: obj_set_def own_set_member)

lemma recordMissed_positive:
  assumes "\<And>a b. (a, b) \<in> set obj \<Longrightarrow> 0 < b" and "(a, b) \<in> set (recordMissed logs obj med)"
  shows "0 < b"
proof (cases "missedCount logs med > 0")
  case True
  with assms(2) have "(a, b) \<in> set obj \<or> b = missedCount logs med"
    by (simp add: recordMissed_def obj_set_member)
  with True assms(1) show ?thesis by blast
next
  case False
  with assms show ?thesis by (simp add: recordMissed_def)
qed

lemma foldl_recordMissed_positive:
  "(\<And>a b. (a, b) \<in> set obj \<Longrightarrow> 0 < b) \<Longrightarrow> (a, b) \<in> set (foldl (recordMissed logs) obj meds) \<Longrightarrow> 0 < b"
proof (induction meds arbitrary: obj)
  case Nil
  then show ?case by simp
next
  case (Cons med meds)
  have step: "\<And>a b. (a, b) \<in> set (recordMissed logs obj med) \<Longrightarrow> 0 < b"
    using Cons.prems(1) by (rule recordMissed_positive)
  from Cons.prems(2) have "(a, b) \<in> set (foldl (recordMissed logs) (recordMissed logs obj med) meds)"
    by (simp only: foldl_Cons)
  with step show ?case by (rule Cons.IH)
qed

lemma missedByMed_positive: "(a, b) \<in> set (missedByMed meds logs) \<Longrightarrow> 0 < b"
  unfolding missedByMed_def by (rule foldl_recordMissed_positive [of "[]"]) simp_all

lemma set_Object_entries: "set (Object_entries obj) = set obj"
  by (auto simp: Object_entries_def)

lemma Array_sort_byCountDesc:
  "Array_sort byCountDesc xs = sort_key (\<lambda>e. - int (missed_count e)) xs"
  by (rule Array_sort_key) (simp add: byCountDesc_def)

text \<open>
  What holds of the ranking for all inputs: it has at most three entries, no entry has
  count 0, and the counts descend.
\<close>

lemma sortedMostMissed_take:
  "sortedMostMissed meds logs
     = take 3 (sort_key (\<lambda>e. - int (missed_count e))
         (map (\<lambda>kv. \<lparr>missed_medication = fst kv, missed_count = snd kv\<rparr>)
              (Object_entries (missedByMed meds logs))))"
  by (simp only: sortedMostMissed_def Array_sort_byCountDesc)

lemma sortedMostMissed_positive:
  assumes "e \<in> set (sortedMostMissed meds logs)"
  shows "0 < missed_count e"
proof -
  from assms have "e \<in> set (sort_key (\<lambda>e. - int (missed_count e))
         (map (\<lambda>kv. \<lparr>missed_medication = fst kv, missed_count = snd kv\<rparr>)
              (Object_entries (missedByMed meds logs))))"
    unfolding sortedMostMissed_take by (rule in_set_takeD)
  then have "e \<in> set (map (\<lambda>kv. \<lparr>missed_medication = fst kv, missed_count = snd kv\<rparr>)
              (Object_entries (missedByMed meds logs)))"
    by (simp only: set_sort)
  then obtain a b where "(a, b) \<in> set (missedByMed meds logs)"
    and e: "e = \<lparr>missed_medication = a, missed_count = b\<rparr>"
    unfolding set_map set_Object_entries by auto
  then show ?thesis
    using missedByMed_positive [of a b meds logs] by simp
qed

lemma sortedMostMissed_descending:
  "sorted_wrt (\<lambda>a b. missed_count b \<le> missed_count a) (sortedMostMissed meds logs)"
proof -
  define ys where "ys = sort_key (\<lambda>e. - int (missed_count e))
         (map (\<lambda>kv. \<lparr>missed_medication = fst kv, missed_count = snd kv\<rparr>)
              (Object_entries (missedByMed meds logs)))"
  have "sorted (map (\<lambda>e. - int (missed_count e)) ys)"
    unfolding ys_def by (rule sorted_sort_key)
  then have "sorted_wrt (\<lambda>a b. - int (missed_count a) \<le> - int (missed_count b)) ys"
    by (simp only: sorted_map)
  then have "sorted_wrt (\<lambda>a b. missed_count b \<le> missed_count a) ys"
    by simp
  then have "sorted_wrt (\<lambda>a b. missed_count b \<le> missed_count a) (take 3 ys)"
    by (rule sorted_wrt_take)
  then show ?thesis
    unfolding sortedMostMissed_take ys_def .
qed

lemma sortedMostMissed_length: "length (sortedMostMissed meds logs) \<le> 3"
  by (simp add: sortedMostMissed_def)

text \<open>
  Claim C3. The most-missed ranking is meant to give each medication the number of its
  own missed logs, also when two medications share a name. The Dashboard collects the
  counts in an object keyed by the medication's name, so a second medication of the same
  name overwrites the first: below, medication \<open>m1\<close> has two missed logs and \<open>m2\<close>
  one, both are called Aspirin, and the ranking is the single entry (Aspirin, 1).
\<close>

theorem mostMissed_same_name:
  "missedCount
     [\<lparr>log_id = ''l1'', medicationId = ''m1'', timestamp = 1709280300000, isOnTime = False, log_userId = ''u1''\<rparr>,
      \<lparr>log_id = ''l2'', medicationId = ''m1'', timestamp = 1709366700000, isOnTime = False, log_userId = ''u1''\<rparr>,
      \<lparr>log_id = ''l3'', medicationId = ''m2'', timestamp = 1709280300000, isOnTime = False, log_userId = ''u1''\<rparr>]
     \<lparr>med_id = ''m1'', name = ''Aspirin'', dose = ''10mg'', frequency = once_daily,
      times = [''08:00''], startDate = 1704067200000, endDate = None, med_userId = ''u1''\<rparr> = 2
   \<and> sortedMostMissed
     [\<lparr>med_id = ''m1'', name = ''Aspirin'', dose = ''10mg'', frequency = once_daily,
       times = [''08:00''], startDate = 1704067200000, endDate = None, med_userId = ''u1''\<rparr>,
      \<lparr>med_id = ''m2'', name = ''Aspirin'', dose = ''75mg'', frequency = once_daily,
       times = [''20:00''], startDate = 1704067200000, endDate = None, med_userId = ''u1''\<rparr>]
     [\<lparr>log_id = ''l1'', medicationId = ''m1'', timestamp = 1709280300000, isOnTime = False, log_userId = ''u1''\<rparr>,
      \<lparr>log_id = ''l2'', medicationId = ''m1'', timestamp = 1709366700000, isOnTime = False, log_userId = ''u1''\<rparr>,
      \<lparr>log_id = ''l3'', medicationId = ''m2'', timestamp = 1709280300000, isOnTime = False, log_userId = ''u1''\<rparr>]
   = [\<lparr>missed_medication = ''Aspirin'', missed_count = 1\<rparr>]"
  by (simp add: sortedMostMissed_def missedByMed_def recordMissed_def missedCount_def obj_set_def
      Object_entries_def isArrayIndex_def isDigit_def Array_sort_def)

section \<open>Local time and the projection of one time of day\<close>







lemma offsetFrom_member: "offsetFrom off cs t \<in> set (off # map snd cs)"
  by (induction off cs t rule: offsetFrom.induct) auto

lemma offsetBeforeGap_member: "offsetBeforeGap off cs loc \<in> set (off # map snd cs)"
  by (induction off cs loc rule: offsetBeforeGap.induct) auto


lemma fold_min_Min: "fold min ts t = Min (set (t # ts))"
  by (rule Min.set_eq_fold [symmetric])

lemma zoneUTC_Cons: "possibleInstants h cs loc = t # ts \<Longrightarrow> zoneUTC h cs loc = Min (set (t # ts))"
  unfolding zoneUTC_def by (simp only: list.case fold_min_Min)


lemma zoneUTC_offset: "\<exists>off \<in> set (zoneOffsets h cs). zoneUTC h cs loc = loc - off"
proof (cases "possibleInstants h cs loc")
  case Nil
  have "offsetBeforeGap (tzOffset h) cs loc \<in> set (zoneOffsets h cs)"
    unfolding zoneOffsets_def by (rule offsetBeforeGap_member)
  then show ?thesis by (auto simp: zoneUTC_def Nil)
next
  case (Cons t ts)
  have "Min (set (t # ts)) \<in> set (t # ts)"
    by (rule Min_in) simp_all
  then have "Min (set (t # ts)) \<in> set (possibleInstants h cs loc)"
    by (simp only: Cons)
  then have "Min (set (t # ts)) \<in> (\<lambda>off. loc - off) ` set (zoneOffsets h cs)"
    by (auto simp: possibleInstants_def)
  then show ?thesis
    unfolding zoneUTC_Cons [OF Cons] by blast
qed

lemma zoneLocalTime_near:
  assumes "list_all (\<lambda>off. \<bar>off\<bar> \<le> msPerDay) (zoneOffsets h cs)"
  shows "\<bar>zoneLocalTime h cs t - t\<bar> \<le> msPerDay"
proof -
  have "offsetFrom (tzOffset h) cs t \<in> set (zoneOffsets h cs)"
    unfolding zoneOffsets_def by (rule offsetFrom_member)
  with assms have "\<bar>offsetFrom (tzOffset h) cs t\<bar> \<le> msPerDay"
    by (simp add: list_all_iff)
  then show ?thesis by (simp add: zoneLocalTime_def)
qed

lemma zoneUTC_near:
  assumes "list_all (\<lambda>off. \<bar>off\<bar> \<le> msPerDay) (zoneOffsets h cs)"
  shows "\<bar>zoneUTC h cs loc - loc\<bar> \<le> msPerDay"
proof -
  from zoneUTC_offset [of h cs loc]
  obtain off where "off \<in> set (zoneOffsets h cs)" and u: "zoneUTC h cs loc = loc - off"
    by blast
  with assms have "\<bar>off\<bar> \<le> msPerDay"
    by (simp add: list_all_iff)
  then show ?thesis unfolding u by simp
qed

lemma Day_bounds: "Day t * msPerDay \<le> t \<and> t < Day t * msPerDay + msPerDay"
proof -
  have "0 \<le> t mod 86400000" "t mod 86400000 < 86400000"
    by simp_all
  moreover have "t div 86400000 * 86400000 = t - t mod 86400000"
    by (simp add: minus_mod_eq_div_mult)
  ultimately show ?thesis
    by (simp add: Day_def msPerDay_def)
qed

lemma MakeDate_next_day: "MakeDate (Day t + 1) (TimeWithinDay t) = t + msPerDay"
proof -
  have "t div 86400000 * 86400000 + t mod 86400000 = t"
    by simp
  then show ?thesis
    by (simp add: MakeDate_def Day_def TimeWithinDay_def msPerDay_def algebra_simps)
qed


lemma projectDose_numeric:
  assumes p: "parseTime h s = (Some hh, Some mm)"
    and zb: "list_all (\<lambda>off. \<bar>off\<bar> \<le> msPerDay) (zoneOffsets h cs)"
    and rg: "\<bar>now\<bar> + \<bar>MakeTime hh mm\<bar> + 6 * msPerDay \<le> 8640000000000000"
  shows "projectDose h cs now med s
     = \<lparr>medication = med,
        dueTime = Some (if zoneUTC h cs (MakeDate (Day (zoneLocalTime h cs now)) (MakeTime hh mm)) < now
                        then zoneUTC h cs (zoneLocalTime h cs
                               (zoneUTC h cs (MakeDate (Day (zoneLocalTime h cs now)) (MakeTime hh mm)))
                               + msPerDay)
                        else zoneUTC h cs (MakeDate (Day (zoneLocalTime h cs now)) (MakeTime hh mm)))\<rparr>"
proof -
  define L where "L = zoneLocalTime h cs now"
  define loc where "loc = MakeDate (Day L) (MakeTime hh mm)"
  define c where "c = zoneUTC h cs loc"
  define c' where "c' = zoneUTC h cs (zoneLocalTime h cs c + msPerDay)"
  have l1: "\<bar>L - now\<bar> \<le> msPerDay"
    unfolding L_def by (rule zoneLocalTime_near [OF zb])
  have l2: "Day L * msPerDay \<le> L \<and> L < Day L * msPerDay + msPerDay"
    by (rule Day_bounds)
  have l3: "\<bar>c - loc\<bar> \<le> msPerDay"
    unfolding c_def by (rule zoneUTC_near [OF zb])
  have l4: "\<bar>zoneLocalTime h cs c - c\<bar> \<le> msPerDay"
    by (rule zoneLocalTime_near [OF zb])
  have l5: "\<bar>c' - (zoneLocalTime h cs c + msPerDay)\<bar> \<le> msPerDay"
    unfolding c'_def by (rule zoneUTC_near [OF zb])
  have le: "loc = Day L * msPerDay + MakeTime hh mm"
    by (simp add: loc_def MakeDate_def)
  have bc: "\<bar>c\<bar> \<le> 8640000000000000"
    using l1 l2 l3 le rg unfolding msPerDay_def by linarith
  have bc': "\<bar>c'\<bar> \<le> 8640000000000000"
    using l1 l2 l3 l4 l5 le rg unfolding msPerDay_def by linarith
  have sh: "setHours h cs now (Some hh) (Some mm) = Some c"
    using bc by (simp add: setHours_def TimeClip_def c_def loc_def L_def)
  have nx: "setDate_next h cs c = Some c'"
    using bc' by (simp add: setDate_next_def MakeDate_next_day TimeClip_def c'_def)
  have "projectDose h cs now med s = \<lparr>medication = med, dueTime = Some (if c < now then c' else c)\<rparr>"
    by (simp add: projectDose_def p sh nx isBefore_def Let_def)
  then show ?thesis
    unfolding c'_def c_def loc_def L_def .
qed




section \<open>Projection of the upcoming doses\<close>

lemma byDueTime_valid:
  "dueTime a \<noteq> None \<Longrightarrow> dueTime b \<noteq> None \<Longrightarrow> byDueTime a b = Some (dueMs a - dueMs b)"
  by (auto simp: byDueTime_def dueMs_def)

lemma Array_sort_byDueTime:
  assumes "\<forall>e \<in> set xs. dueTime e \<noteq> None"
  shows "Array_sort byDueTime xs = sort_key dueMs xs"
  by (rule Array_sort_key) (use assms byDueTime_valid in blast)


lemma medication_projectDose: "medication (projectDose h cs now med s) = med"
  by (simp add: projectDose_def Let_def split: prod.splits)

lemma upcomingProjection_medications:
  "map medication (upcomingProjection h cs now meds)
     = concat (map (\<lambda>med. replicate (length (times med)) med) (filter (upcomingFilter now) meds))"
  unfolding upcomingProjection_def map_concat map_map
  by (intro arg_cong [where f = concat] map_cong refl)
     (simp add: comp_def medication_projectDose map_replicate_const)


lemma upcomingProjection_slots:
  "list_all2 (\<lambda>e slot. e = projectDose h cs now (fst slot) (snd slot))
     (upcomingProjection h cs now meds)
     (concat (map (\<lambda>med. map (Pair med) (times med)) (filter (upcomingFilter now) meds)))"
proof -
  have "upcomingProjection h cs now meds
      = map (\<lambda>slot. projectDose h cs now (fst slot) (snd slot))
          (concat (map (\<lambda>med. map (Pair med) (times med)) (filter (upcomingFilter now) meds)))"
    by (simp add: upcomingProjection_def map_concat comp_def)
  then show ?thesis
    by (simp add: list.rel_map list.rel_refl)
qed






section \<open>Malformed times of day\<close>

lemma renderUpcomingDoses_fails:
  "list_ex (\<lambda>e. dueTime e = None) xs \<Longrightarrow> renderUpcomingDoses xs = Inl RangeError"
  by (induction xs) (auto simp: format_js_def split: option.splits sum.splits)

lemma renderUpcomingDoses_succeeds:
  "list_all (\<lambda>e. dueTime e \<noteq> None) xs \<Longrightarrow> \<exists>rows. renderUpcomingDoses xs = Inr rows"
  by (induction xs) (auto simp: format_js_def split: option.splits sum.splits)

lemma upcomingDoses_short:
  assumes k: "set (engineOrder (upcomingProjection h cs now meds)) = set (upcomingProjection h cs now meds)"
    and l: "length (engineOrder (upcomingProjection h cs now meds)) = length (upcomingProjection h cs now meds)"
    and s: "length (upcomingProjection h cs now meds) \<le> 3"
  shows "set (upcomingDoses h cs engineOrder now meds) = set (upcomingProjection h cs now meds)"
proof (cases "list_all (\<lambda>e. dueTime e \<noteq> None) (upcomingProjection h cs now meds)")
  case True
  then have v: "\<forall>e \<in> set (upcomingProjection h cs now meds). dueTime e \<noteq> None"
    by (simp add: list_all_iff)
  have "upcomingSorted h cs engineOrder now meds = sort_key dueMs (upcomingProjection h cs now meds)"
    unfolding upcomingSorted_def using True by (simp only: if_True Array_sort_byDueTime [OF v])
  then show ?thesis
    using s by (simp add: upcomingDoses_def)
next
  case False
  then have "upcomingSorted h cs engineOrder now meds = engineOrder (upcomingProjection h cs now meds)"
    unfolding upcomingSorted_def by (simp only: if_False)
  then show ?thesis
    using k l s by (simp add: upcomingDoses_def)
qed

lemma projectDose_unreadable:
  "fst (parseTime h s) = None \<or> snd (parseTime h s) = None \<Longrightarrow>
   dueTime (projectDose h cs now med s) = None"
  by (auto simp: projectDose_def setHours_def split: prod.splits option.splits)

text \<open>
  Claim C8 as stated says that a time-of-day string that is not \<^verbatim>\<open>HH:MM\<close> makes the
  upcoming doses fail rather than be left out or shown as if nothing were wrong. First,
  25:61 and 8:5 are not \<^verbatim>\<open>HH:MM\<close>, and the doses render as two ordinary rows:
  25:61 is carried over to 02:01 of the next day, 8:5 is read as 08:05. Second, 1200 has
  no minute field and gives an Invalid Date; it stands last, behind three valid entries
  in ascending order, a stable sort that takes NaN for 0 leaves the array as it is, and
  \<^verbatim>\<open>slice(0, 3)\<close> cuts the entry off: three ordinary rows, no failure.
\<close>

theorem malformed_time_not_rejected:
  "\<not> wellFormedTime ''25:61'' \<and> \<not> wellFormedTime ''8:5'' \<and> \<not> wellFormedTime ''1200''
   \<and> renderUpcomingDoses
       (upcomingDoses \<lparr>tzOffset = 0, NumberOther = (\<lambda>s. None)\<rparr> [] (\<lambda>xs. xs) 1709283600000
         [\<lparr>med_id = ''m1'', name = ''Aspirin'', dose = ''10mg'', frequency = custom,
           times = [''25:61'', ''8:5''], startDate = 1709164800000, endDate = None,
           med_userId = ''u1''\<rparr>])
     = Inr [(''Aspirin'', ''10mg'', 1709344860000), (''Aspirin'', ''10mg'', 1709366700000)]
   \<and> renderUpcomingDoses
       (upcomingDoses \<lparr>tzOffset = 0, NumberOther = (\<lambda>s. None)\<rparr> [] (\<lambda>xs. xs) 1709283600000
         [\<lparr>med_id = ''m1'', name = ''Aspirin'', dose = ''10mg'', frequency = custom,
           times = [''10:00'', ''11:00'', ''12:00'', ''1200''], startDate = 1709164800000,
           endDate = None, med_userId = ''u1''\<rparr>])
     = Inr [(''Aspirin'', ''10mg'', 1709287200000), (''Aspirin'', ''10mg'', 1709290800000),
            (''Aspirin'', ''10mg'', 1709294400000)]"
  by (simp add: upcomingDoses_def upcomingSorted_def upcomingProjection_def Array_sort_def
      upcomingFilter_def isAfter_def isBefore_def projectDose_def parseTime_def
      Number_js_def isDigit_def decimal_def digitVal_def setHours_def setDate_next_def TimeClip_def
      zoneUTC_def possibleInstants_def zoneLocalTime_def zoneOffsets_def format_js_def
      MakeDate_def MakeTime_def Day_def TimeWithinDay_def msPerDay_def
      msPerHour_def msPerMinute_def wellFormedTime_def hourOf_def minuteOf_def byDueTime_def
      SortCompare_def)

text \<open>
  Claim C8, as the code has it. Time-of-day strings are not validated. Every time string
  of an eligible medication gives exactly one projected entry, in input order. A string
  whose hour or minute field is missing or reads as NaN gives an entry with an Invalid
  Date; when such an entry is among the doses shown, rendering them throws a
  \<^verbatim>\<open>RangeError\<close>, and it is among them whenever the projection has at most three
  entries and the engine's sort keeps the entries and their number. A string whose two
  fields read as numbers, in a zone whose offsets are within a day of UTC and inside the
  range of dates, gives a valid due instant; when all due instants are valid the doses
  render without failure.
\<close>

theorem malformed_time_projection:
  "list_all2 (\<lambda>e slot. e = projectDose h cs now (fst slot) (snd slot))
     (upcomingProjection h cs now meds)
     (concat (map (\<lambda>med. map (Pair med) (times med)) (filter (upcomingFilter now) meds)))
   \<and> (fst (parseTime h s) = None \<or> snd (parseTime h s) = None
        \<longrightarrow> dueTime (projectDose h cs now med s) = None)
   \<and> (list_ex (\<lambda>e. dueTime e = None) (upcomingDoses h cs engineOrder now meds)
        \<longrightarrow> renderUpcomingDoses (upcomingDoses h cs engineOrder now meds) = Inl RangeError)
   \<and> (list_ex (\<lambda>e. dueTime e = None) (upcomingProjection h cs now meds)
        \<and> length (upcomingProjection h cs now meds) \<le> 3
        \<and> set (engineOrder (upcomingProjection h cs now meds))
            = set (upcomingProjection h cs now meds)
        \<and> length (engineOrder (upcomingProjection h cs now meds))
            = length (upcomingProjection h cs now meds)
        \<longrightarrow> renderUpcomingDoses (upcomingDoses h cs engineOrder now meds) = Inl RangeError)
   \<and> (parseTime h s = (Some hh, Some mm)
        \<and> list_all (\<lambda>off. \<bar>off\<bar> \<le> msPerDay) (zoneOffsets h cs)
        \<and> \<bar>now\<bar> + \<bar>MakeTime hh mm\<bar> + 6 * msPerDay \<le> 8640000000000000
        \<longrightarrow> (\<exists>t. dueTime (projectDose h cs now med s) = Some t))
   \<and> (list_all (\<lambda>e. dueTime e \<noteq> None) (upcomingProjection h cs now meds)
        \<longrightarrow> (\<exists>rows. renderUpcomingDoses (upcomingDoses h cs engineOrder now meds) = Inr rows))"
proof (intro conjI impI)
  show "list_all2 (\<lambda>e slot. e = projectDose h cs now (fst slot) (snd slot))
     (upcomingProjection h cs now meds)
     (concat (map (\<lambda>med. map (Pair med) (times med)) (filter (upcomingFilter now) meds)))"
    by (rule upcomingProjection_slots)
next
  assume "fst (parseTime h s) = None \<or> snd (parseTime h s) = None"
  then show "dueTime (projectDose h cs now med s) = None"
    by (rule projectDose_unreadable)
next
  assume "list_ex (\<lambda>e. dueTime e = None) (upcomingDoses h cs engineOrder now meds)"
  then show "renderUpcomingDoses (upcomingDoses h cs engineOrder now meds) = Inl RangeError"
    by (rule renderUpcomingDoses_fails)
next
  assume a: "list_ex (\<lambda>e. dueTime e = None) (upcomingProjection h cs now meds)
        \<and> length (upcomingProjection h cs now meds) \<le> 3
        \<and> set (engineOrder (upcomingProjection h cs now meds))
            = set (upcomingProjection h cs now meds)
        \<and> length (engineOrder (upcomingProjection h cs now meds))
            = length (upcomingProjection h cs now meds)"
  then have "set (upcomingDoses h cs engineOrder now meds) = set (upcomingProjection h cs now meds)"
    by (intro upcomingDoses_short) simp_all
  with a have "list_ex (\<lambda>e. dueTime e = None) (upcomingDoses h cs engineOrder now meds)"
    by (simp add: list_ex_iff)
  then show "renderUpcomingDoses (upcomingDoses h cs engineOrder now meds) = Inl RangeError"
    by (rule renderUpcomingDoses_fails)
next
  assume a: "parseTime h s = (Some hh, Some mm)
        \<and> list_all (\<lambda>off. \<bar>off\<bar> \<le> msPerDay) (zoneOffsets h cs)
        \<and> \<bar>now\<bar> + \<bar>MakeTime hh mm\<bar> + 6 * msPerDay \<le> 8640000000000000"
  then have p: "parseTime h s = (Some hh, Some mm)"
    and zb: "list_all (\<lambda>off. \<bar>off\<bar> \<le> msPerDay) (zoneOffsets h cs)"
    and rg: "\<bar>now\<bar> + \<bar>MakeTime hh mm\<bar> + 6 * msPerDay \<le> 8640000000000000"
    by simp_all
  show "\<exists>t. dueTime (projectDose h cs now med s) = Some t"
    unfolding projectDose_numeric [OF p zb rg] by simp
next
  assume v: "list_all (\<lambda>e. dueTime e \<noteq> None) (upcomingProjection h cs now meds)"
  then have v': "\<forall>e \<in> set (upcomingProjection h cs now meds). dueTime e \<noteq> None"
    by (simp add: list_all_iff)
  have "upcomingSorted h cs engineOrder now meds = sort_key dueMs (upcomingProjection h cs now meds)"
    unfolding upcomingSorted_def using v by (simp only: if_True Array_sort_byDueTime [OF v'])
  then have "set (upcomingDoses h cs engineOrder now meds) \<subseteq> set (upcomingProjection h cs now meds)"
    by (auto simp: upcomingDoses_def dest: in_set_takeD)
  with v' have "list_all (\<lambda>e. dueTime e \<noteq> None) (upcomingDoses h cs engineOrder now meds)"
    by (auto simp: list_all_iff)
  then show "\<exists>rows. renderUpcomingDoses (upcomingDoses h cs engineOrder now meds) = Inr rows"
    by (rule renderUpcomingDoses_succeeds)
qed

theorem malformed_time_projection_witness:
  "parseTime \<lparr>tzOffset = 0, NumberOther = (\<lambda>s. None)\<rparr> ''8'' = (Some 8, None)
   \<and> parseTime \<lparr>tzOffset = 0, NumberOther = (\<lambda>s. None)\<rparr> ''08:00:30'' = (Some 8, Some 0)
   \<and> list_all (\<lambda>off. \<bar>off\<bar> \<le> msPerDay) (zoneOffsets \<lparr>tzOffset = 0, NumberOther = (\<lambda>s. None)\<rparr> [])
   \<and> \<bar>1709283600000\<bar> + \<bar>MakeTime 8 0\<bar> + 6 * msPerDay \<le> 8640000000000000
   \<and> upcomingProjection \<lparr>tzOffset = 0, NumberOther = (\<lambda>s. None)\<rparr> [] 1709283600000
       [\<lparr>med_id = ''m1'', name = ''Aspirin'', dose = ''10mg'', frequency = custom,
         times = [''8'', ''08:00:30''], startDate = 1709164800000, endDate = None,
         med_userId = ''u1''\<rparr>]
     = [\<lparr>medication = \<lparr>med_id = ''m1'', name = ''Aspirin'', dose = ''10mg'', frequency = custom,
           times = [''8'', ''08:00:30''], startDate = 1709164800000, endDate = None,
           med_userId = ''u1''\<rparr>, dueTime = None\<rparr>,
        \<lparr>medication = \<lparr>med_id = ''m1'', name = ''Aspirin'', dose = ''10mg'', frequency = custom,
           times = [''8'', ''08:00:30''], startDate = 1709164800000, endDate = None,
           med_userId = ''u1''\<rparr>, dueTime = Some 1709366400000\<rparr>]
   \<and> renderUpcomingDoses
       (upcomingDoses \<lparr>tzOffset = 0, NumberOther = (\<lambda>s. None)\<rparr> [] rev 1709283600000
         [\<lparr>med_id = ''m1'', name = ''Aspirin'', dose = ''10mg'', frequency = custom,
           times = [''8'', ''08:00:30''], startDate = 1709164800000, endDate = None,
           med_userId = ''u1''\<rparr>])
     = Inl RangeError
   \<and> renderUpcomingDoses
       (upcomingDoses \<lparr>tzOffset = 0, NumberOther = (\<lambda>s. None)\<rparr> [] rev 1709283600000
         [\<lparr>med_id = ''m1'', name = ''Aspirin'', dose = ''10mg'', frequency = custom,
           times = [''08:00:30''], startDate = 1709164800000, endDate = None,
           med_userId = ''u1''\<rparr>])
     = Inr [(''Aspirin'', ''10mg'', 1709366400000)]"
  using malformed_time_projection [of "\<lparr>tzOffset = 0, NumberOther = (\<lambda>s. None)\<rparr>" "[]"
      1709283600000
      "[\<lparr>med_id = ''m1'', name = ''Aspirin'', dose = ''10mg'', frequency = custom,
         times = [''8'', ''08:00:30''], startDate = 1709164800000, endDate = None,
         med_userId = ''u1''\<rparr>]" "''8''"
      "\<lparr>med_id = ''m1'', name = ''Aspirin'', dose = ''10mg'', frequency = custom,
         times = [''8'', ''08:00:30''], startDate = 1709164800000, endDate = None,
         med_userId = ''u1''\<rparr>" rev 8 0]
    malformed_time_projection [of "\<lparr>tzOffset = 0, NumberOther = (\<lambda>s. None)\<rparr>" "[]"
      1709283600000
      "[\<lparr>med_id = ''m1'', name = ''Aspirin'', dose = ''10mg'', frequency = custom,
         times = [''08:00:30''], startDate = 1709164800000, endDate = None,
         med_userId = ''u1''\<rparr>]" "''08:00:30''"
      "\<lparr>med_id = ''m1'', name = ''Aspirin'', dose = ''10mg'', frequency = custom,
         times = [''08:00:30''], startDate = 1709164800000, endDate = None,
         med_userId = ''u1''\<rparr>" rev 8 0]
  by (simp add: upcomingDoses_def upcomingSorted_def upcomingProjection_def Array_sort_def
      upcomingFilter_def isAfter_def isBefore_def projectDose_def parseTime_def
      Number_js_def isDigit_def decimal_def digitVal_def setHours_def setDate_next_def TimeClip_def
      zoneUTC_def possibleInstants_def zoneLocalTime_def zoneOffsets_def format_js_def
      MakeDate_def MakeTime_def Day_def TimeWithinDay_def msPerDay_def
      msPerHour_def msPerMinute_def byDueTime_def SortCompare_def)

section \<open>Calendar: logged medications\<close>

lemma startOfDay_eq_iff:
  "startOfDay h a = startOfDay h b \<longleftrightarrow> Day (LocalTime h a) = Day (LocalTime h b)"
  by (simp add: startOfDay_def UTC_def msPerDay_def)

text \<open>
  Claim C6. On the Calendar page a medication counts as taken on the selected date exactly
  when some loaded log refers to it and has its timestamp on the same local calendar day
  as the selected date, whatever the time of day. In particular it counts as taken once a
  log for it with a timestamp on that day has been appended to the logs.
\<close>

theorem isMedicationTaken_iff:
  "(isMedicationTaken h st medId \<longleftrightarrow>
      (\<exists>log \<in> set (cal_logs st).
          medicationId log = medId
          \<and> Day (LocalTime h (timestamp log)) = Day (LocalTime h (cal_date st))))
   \<and> (medicationId newLog = medId
        \<and> Day (LocalTime h (timestamp newLog)) = Day (LocalTime h (cal_date st))
        \<longrightarrow> isMedicationTaken h (Calendar_logInserted st newLog) medId)"
  by (auto simp: isMedicationTaken_def getLogsForDate_def isSameDay_def startOfDay_eq_iff
      Calendar_logInserted_def list_ex_iff)

theorem isMedicationTaken_witness:
  "isMedicationTaken \<lparr>tzOffset = 3600000, NumberOther = (\<lambda>s. None)\<rparr>
     (Calendar_logInserted
        \<lparr>cal_user = Some ''u1'', cal_date = 1709247600000, cal_medications = [], cal_logs = []\<rparr>
        \<lparr>log_id = ''l1'', medicationId = ''m1'', timestamp = 1709333999999, isOnTime = True,
         log_userId = ''u1''\<rparr>)
     ''m1''
   \<and> \<not> isMedicationTaken \<lparr>tzOffset = 3600000, NumberOther = (\<lambda>s. None)\<rparr>
     (Calendar_logInserted
        \<lparr>cal_user = Some ''u1'', cal_date = 1709247600000, cal_medications = [], cal_logs = []\<rparr>
        \<lparr>log_id = ''l1'', medicationId = ''m1'', timestamp = 1709334000000, isOnTime = True,
         log_userId = ''u1''\<rparr>)
     ''m1''"
  using isMedicationTaken_iff [of "\<lparr>tzOffset = 3600000, NumberOther = (\<lambda>s. None)\<rparr>"
      "Calendar_logInserted
        \<lparr>cal_user = Some ''u1'', cal_date = 1709247600000, cal_medications = [], cal_logs = []\<rparr>
        \<lparr>log_id = ''l1'', medicationId = ''m1'', timestamp = 1709333999999, isOnTime = True,
         log_userId = ''u1''\<rparr>" "''m1''"]
    isMedicationTaken_iff [of "\<lparr>tzOffset = 3600000, NumberOther = (\<lambda>s. None)\<rparr>"
      "Calendar_logInserted
        \<lparr>cal_user = Some ''u1'', cal_date = 1709247600000, cal_medications = [], cal_logs = []\<rparr>
        \<lparr>log_id = ''l1'', medicationId = ''m1'', timestamp = 1709334000000, isOnTime = True,
         log_userId = ''u1''\<rparr>" "''m1''"]
  by (simp add: Calendar_logInserted_def Day_def LocalTime_def msPerDay_def)

section \<open>Logging a dose\<close>

lemma Calendar_handleLogDose_rejects:
  "cal_user st = Some uid \<Longrightarrow> isMedicationTaken h st medId \<Longrightarrow>
   Calendar_handleLogDose h st medId clock
     = Notice (toast_info ''You've already logged this medication today'')"
  by (simp add: Calendar_handleLogDose_def)

text \<open>
  The Calendar's test looks at the selected date, not at the day of the new log: with
  yesterday selected and a log of today loaded, a second log of today is inserted.
\<close>

lemma Calendar_tests_selected_date:
  "Calendar_handleLogDose \<lparr>tzOffset = 0, NumberOther = (\<lambda>s. None)\<rparr>
       \<lparr>cal_user = Some ''u1'', cal_date = 1709197200000, cal_medications = [],
        cal_logs = [\<lparr>log_id = ''l1'', medicationId = ''m1'', timestamp = 1709280300000,
                     isOnTime = True, log_userId = ''u1''\<rparr>]\<rparr>
       ''m1'' 1709283600000
     = Insert \<lparr>medication_id = ''m1'', row_timestamp = 1709283600000, is_on_time = True,
               user_id = ''u1''\<rparr>"
  by (simp add: Calendar_handleLogDose_def isMedicationTaken_def getLogsForDate_def
      isSameDay_def startOfDay_def UTC_def LocalTime_def Day_def msPerDay_def)

text \<open>
  Claim C7. Logging a dose for a medication that already has a log on the same calendar
  day is meant to be rejected with a notice at every entry point. The Calendar page does
  so (\<open>Calendar_handleLogDose_rejects\<close>, for the selected date and the loaded logs). The
  Dose Logging page has no such test: below, its recent logs hold a log for \<open>m1\<close> of
  the same day, and the handler still asks the store to insert a second one.
\<close>

theorem DoseLogging_inserts_second_log:
  "list_ex (\<lambda>log. medicationId log = ''m1''
                \<and> isSameDay \<lparr>tzOffset = 0, NumberOther = (\<lambda>s. None)\<rparr> (timestamp log) 1709283600000)
     (recentLogs \<lparr>dl_user = Some ''u1'', selectedMedicationId = ''m1'', dl_medications = [],
        recentLogs = [\<lparr>log_id = ''l1'', medicationId = ''m1'', timestamp = 1709280300000,
                       isOnTime = True, log_userId = ''u1''\<rparr>]\<rparr>)
   \<and> DoseLogging_handleLogDose
       \<lparr>dl_user = Some ''u1'', selectedMedicationId = ''m1'', dl_medications = [],
        recentLogs = [\<lparr>log_id = ''l1'', medicationId = ''m1'', timestamp = 1709280300000,
                       isOnTime = True, log_userId = ''u1''\<rparr>]\<rparr>
       1709283600000
     = Insert \<lparr>medication_id = ''m1'', row_timestamp = 1709283600000, is_on_time = True,
               user_id = ''u1''\<rparr>"
  by (simp add: DoseLogging_handleLogDose_def isSameDay_def startOfDay_def UTC_def LocalTime_def
      Day_def msPerDay_def)


text \<open>
  Claim C9. Every row that a dose-logging handler inserts has its on-time flag set to
  true, whatever the medications, their times of day, the logs and the clock: the flag is
  never computed from them.
\<close>

theorem inserted_rows_on_time:
  "(Calendar_handleLogDose h st medId clock = Insert row \<longrightarrow> is_on_time row)
   \<and> (DoseLogging_handleLogDose st' clock' = Insert row' \<longrightarrow> is_on_time row')"
  by (auto simp: Calendar_handleLogDose_def DoseLogging_handleLogDose_def
      split: option.splits if_splits)

theorem inserted_rows_on_time_witness:
  "Calendar_handleLogDose \<lparr>tzOffset = 0, NumberOther = (\<lambda>s. None)\<rparr>
       \<lparr>cal_user = Some ''u1'', cal_date = 1709283600000, cal_medications = [], cal_logs = []\<rparr>
       ''m1'' 1709283600000
     = Insert \<lparr>medication_id = ''m1'', row_timestamp = 1709283600000, is_on_time = True,
               user_id = ''u1''\<rparr>
   \<and> DoseLogging_handleLogDose
       \<lparr>dl_user = Some ''u1'', selectedMedicationId = ''m1'', dl_medications = [], recentLogs = []\<rparr>
       1709283600000
     = Insert \<lparr>medication_id = ''m1'', row_timestamp = 1709283600000, is_on_time = True,
               user_id = ''u1''\<rparr>
   \<and> is_on_time \<lparr>medication_id = ''m1'', row_timestamp = 1709283600000, is_on_time = True,
               user_id = ''u1''\<rparr>"
  using inserted_rows_on_time [of "\<lparr>tzOffset = 0, NumberOther = (\<lambda>s. None)\<rparr>"
      "\<lparr>cal_user = Some ''u1'', cal_date = 1709283600000, cal_medications = [], cal_logs = []\<rparr>"
      "''m1''" 1709283600000
      "\<lparr>medication_id = ''m1'', row_timestamp = 1709283600000, is_on_time = True, user_id = ''u1''\<rparr>"
      "\<lparr>dl_user = Some ''u1'', selectedMedicationId = ''m1'', dl_medications = [], recentLogs = []\<rparr>"
      1709283600000
      "\<lparr>medication_id = ''m1'', row_timestamp = 1709283600000, is_on_time = True, user_id = ''u1''\<rparr>"]
  by (simp add: Calendar_handleLogDose_def DoseLogging_handleLogDose_def isMedicationTaken_def
      getLogsForDate_def)


section \<open>Adding a medication\<close>

text \<open>
  Claim C10. With a logged-in user, submitting the Add Medication form inserts a row exactly
  when the list of times is not empty; with an empty list it shows an error notice and
  builds no row. Without a user nothing is inserted. So every inserted row has at least
  one time of day.
\<close>

theorem onSubmit_inserts_iff_times:
  "(add_user st = Some uid \<longrightarrow>
      ((\<exists>row. onSubmit st data clock = Insert row) \<longleftrightarrow> add_times st \<noteq> []))
   \<and> (add_user st = Some uid \<longrightarrow> add_times st = [] \<longrightarrow>
        onSubmit st data clock
          = Notice (toast_error ''Please add at least one time for your medication''))
   \<and> (onSubmit st data clock = Insert row \<longrightarrow>
        row_times row = add_times st \<and> row_times row \<noteq> [] \<and> add_user st \<noteq> None)"
  by (auto simp: onSubmit_def split: option.splits if_splits)

theorem onSubmit_witness:
  "onSubmit \<lparr>add_user = Some ''u1'', add_times = [''08:00'']\<rparr>
      \<lparr>form_name = ''Aspirin'', form_dose = ''10mg'', form_frequency = once_daily,
       form_startDate = 1704067200000, form_endDate = None, form_category = Some ''prescription'',
       form_familyMember = None\<rparr> 1704070800000
     = Insert \<lparr>row_name = ''Aspirin'', row_dose = ''10mg'', row_frequency = once_daily,
         row_times = [''08:00''], start_date = 1704067200000, end_date = None,
         category = Some ''prescription'', family_member = None, row_user_id = ''u1'',
         created_at = 1704070800000\<rparr>
   \<and> onSubmit \<lparr>add_user = Some ''u1'', add_times = []\<rparr>
      \<lparr>form_name = ''Aspirin'', form_dose = ''10mg'', form_frequency = once_daily,
       form_startDate = 1704067200000, form_endDate = None, form_category = Some ''prescription'',
       form_familyMember = None\<rparr> 1704070800000
     = Notice (toast_error ''Please add at least one time for your medication'')"
  using onSubmit_inserts_iff_times [of "\<lparr>add_user = Some ''u1'', add_times = [''08:00'']\<rparr>" "''u1''"
      "\<lparr>form_name = ''Aspirin'', form_dose = ''10mg'', form_frequency = once_daily,
       form_startDate = 1704067200000, form_endDate = None, form_category = Some ''prescription'',
       form_familyMember = None\<rparr>" 1704070800000
      "\<lparr>row_name = ''Aspirin'', row_dose = ''10mg'', row_frequency = once_daily,
         row_times = [''08:00''], start_date = 1704067200000, end_date = None,
         category = Some ''prescription'', family_member = None, row_user_id = ''u1'',
         created_at = 1704070800000\<rparr>"]
    onSubmit_inserts_iff_times [of "\<lparr>add_user = Some ''u1'', add_times = []\<rparr>" "''u1''"
      "\<lparr>form_name = ''Aspirin'', form_dose = ''10mg'', form_frequency = once_daily,
       form_startDate = 1704067200000, form_endDate = None, form_category = Some ''prescription'',
       form_familyMember = None\<rparr>" 1704070800000]
  by (simp add: onSubmit_def)


end
